theory Spec2Isabelle
  imports Main "HOL-Library.Word"
begin

section \<open>The AWS KMS key manager plugin (pkg/kms/kms.go)\<close>

text \<open>
  The plugin keeps a table from SPIRE key identifiers to key entries and talks to AWS KMS
  through the SDK client. The embedding follows the Go file function by function:
  \<^item> the \<open>Plugin\<close> struct is a record that every method takes and returns;
  \<^item> the SDK client is a record of six answer functions, one per operation of the
    \<open>kmsClient\<close> interface, and every request the plugin sends is appended to the
    field \<open>requests\<close>, oldest first;
  \<^item> a Go \<open>(value, error)\<close> return is a \<open>result\<close>: \<open>Ok\<close>, \<open>Err\<close>, or \<open>Panic\<close> where
    the Go code would dereference a nil pointer or index past the end of a slice;
  \<^item> pointer-typed fields of SDK responses are \<open>option\<close>s, \<open>None\<close> being nil.
  \<open>GetPublicKeys\<close> and \<open>GetPluginInfo\<close>, which no property below is about, are left out.
\<close>

subsection \<open>Values of the imported packages\<close>

type_synonym bytes = "8 word list"

text \<open>
  \<open>time.Time\<close>: seconds since the epoch and the nanoseconds within that second.
  \<open>Unix\<close> is the method \<open>Time.Unix()\<close>, which drops the nanoseconds.
\<close>

record Time =
  sec :: int
  nsec :: nat

definition Unix :: "Time \<Rightarrow> int" where
  "Unix t = sec t"

definition Before :: "Time \<Rightarrow> Time \<Rightarrow> bool" where
  "Before t u = (sec t < sec u \<or> (sec t = sec u \<and> nsec t < nsec u))"

text \<open>The enumeration \<open>keymanager.KeyType\<close> of the SPIRE protocol.\<close>

datatype KeyType =
  KeyType_UNSPECIFIED_KEY_TYPE
| KeyType_EC_P256
| KeyType_EC_P384
| KeyType_RSA_1024
| KeyType_RSA_2048
| KeyType_RSA_4096

record PublicKey =
  pk_Id :: string
  pk_Type :: KeyType
  pk_PkixData :: bytes

text \<open>String constants of the SDK package \<open>kms\<close>, with the values the SDK gives them.\<close>

abbreviation CustomerMasterKeySpecRsa2048 :: string where
  "CustomerMasterKeySpecRsa2048 \<equiv> ''RSA_2048''"

abbreviation CustomerMasterKeySpecRsa4096 :: string where
  "CustomerMasterKeySpecRsa4096 \<equiv> ''RSA_4096''"

abbreviation CustomerMasterKeySpecEccNistP256 :: string where
  "CustomerMasterKeySpecEccNistP256 \<equiv> ''ECC_NIST_P256''"

abbreviation CustomerMasterKeySpecEccNistP384 :: string where
  "CustomerMasterKeySpecEccNistP384 \<equiv> ''ECC_NIST_P384''"

abbreviation KeyUsageTypeSignVerify :: string where
  "KeyUsageTypeSignVerify \<equiv> ''SIGN_VERIFY''"

abbreviation MessageTypeDigest :: string where
  "MessageTypeDigest \<equiv> ''DIGEST''"

abbreviation SigningAlgorithmSpecEcdsaSha256 :: string where
  "SigningAlgorithmSpecEcdsaSha256 \<equiv> ''ECDSA_SHA_256''"

text \<open>
  Errors: one made by the plugin's error class \<open>kmsErr = errs.Class("kms")\<close>, carrying the
  formatted message, or one handed back by an imported package (SDK, HCL decoder).
\<close>

datatype error = kmsErr string | external string

fun error_message :: "error \<Rightarrow> string" where
  "error_message (kmsErr m) = ''kms: '' @ m"
| "error_message (external m) = m"

datatype panic = nil_dereference | index_out_of_range

datatype 'a result = Ok 'a | Err error | Panic panic

subsection \<open>Requests and responses of the SDK client\<close>

record KeyMetadata =
  md_KeyId :: "string option"
  md_CustomerMasterKeySpec :: "string option"
  md_Enabled :: "bool option"
  md_Description :: "string option"
  md_CreationDate :: "Time option"

record CreateKeyInput =
  ck_Description :: string
  ck_KeyUsage :: string
  ck_CustomerMasterKeySpec :: string

record SignInput =
  sg_KeyId :: string
  sg_Message :: bytes
  sg_MessageType :: string
  sg_SigningAlgorithm :: string

record KeyListEntry =
  le_KeyId :: "string option"

record GetPublicKeyOutput =
  gp_KeyId :: "string option"
  gp_PublicKey :: bytes

text \<open>
  \<open>CreateKeyOutput\<close> and \<open>DescribeKeyOutput\<close> hold the pointer \<open>KeyMetadata\<close>,
  \<open>ListKeysOutput\<close> the slice \<open>Keys\<close> of pointers, \<open>SignOutput\<close> the bytes \<open>Signature\<close>;
  the answer functions return these fields directly. The inputs of describe, get public key
  and schedule deletion hold the pointer \<open>KeyId\<close> only.
\<close>

record kmsClient =
  CreateKeyWithContext :: "CreateKeyInput \<Rightarrow> error + KeyMetadata option"
  DescribeKeyWithContext :: "string option \<Rightarrow> error + KeyMetadata option"
  GetPublicKeyWithContext :: "string option \<Rightarrow> error + GetPublicKeyOutput"
  ListKeysWithContext :: "error + KeyListEntry option list"
  ScheduleKeyDeletionWithContext :: "string option \<Rightarrow> error + unit"
  SignWithContext :: "SignInput \<Rightarrow> error + bytes"

datatype request =
  kms_CreateKey CreateKeyInput
| kms_DescribeKey "string option"
| kms_GetPublicKey "string option"
| kms_ListKeys
| kms_ScheduleKeyDeletion "string option"
| kms_Sign SignInput

text \<open>
  What \<open>configure\<close> and \<open>newKMSClient\<close> take from outside the file: the HCL decoder, and
  \<open>session.NewSession\<close> followed by \<open>kms.New\<close>, which turns the SDK configuration
  (static credentials with an empty session token, and the region) into a client.
\<close>

record Config =
  AccessKeyID :: string
  SecretAccessKey :: string
  Region :: string

record aws_Config =
  aws_Credentials :: "string \<times> string \<times> string"
  aws_Region :: string

record env =
  hcl_Decode :: "string \<Rightarrow> error + Config"
  NewSession :: "aws_Config \<Rightarrow> error + kmsClient"

subsection \<open>The plugin's data\<close>

abbreviation keyPrefix :: string where
  "keyPrefix \<equiv> ''SPIRE_SERVER_KEY:''"

record keyEntry =
  AwsKeyID :: string
  CreationDate :: "Time option"
  PublicKey :: PublicKey

datatype log_line = log_Error string string error

record Plugin =
  logged :: "log_line list"
  config :: "Config option"
  entries :: "string \<rightharpoonup> keyEntry"
  kmsClient :: "kmsClient option"
  requests :: "request list"

definition New :: Plugin where
  "New = \<lparr>logged = [], config = None, entries = Map.empty, kmsClient = None, requests = []\<rparr>"

definition send :: "request \<Rightarrow> Plugin \<Rightarrow> Plugin" where
  "send r p = p\<lparr>requests := requests p @ [r]\<rparr>"

subsection \<open>Type mapping\<close>

definition keyTypeFromKeySpec :: "string \<Rightarrow> error + KeyType" where
  "keyTypeFromKeySpec keySpec =
     (if keySpec = CustomerMasterKeySpecRsa2048 then Inr KeyType_RSA_2048
      else if keySpec = CustomerMasterKeySpecRsa4096 then Inr KeyType_RSA_4096
      else if keySpec = CustomerMasterKeySpecEccNistP256 then Inr KeyType_EC_P256
      else if keySpec = CustomerMasterKeySpecEccNistP384 then Inr KeyType_EC_P384
      else Inl (kmsErr ''unsupported''))"

fun keySpecFromKeyType :: "KeyType \<Rightarrow> error + string" where
  "keySpecFromKeyType KeyType_RSA_1024 = Inl (kmsErr ''unsupported'')"
| "keySpecFromKeyType KeyType_RSA_2048 = Inr CustomerMasterKeySpecRsa2048"
| "keySpecFromKeyType KeyType_RSA_4096 = Inr CustomerMasterKeySpecRsa4096"
| "keySpecFromKeyType KeyType_EC_P256 = Inr CustomerMasterKeySpecEccNistP256"
| "keySpecFromKeyType KeyType_EC_P384 = Inr CustomerMasterKeySpecEccNistP384"
| "keySpecFromKeyType _ = Inl (kmsErr ''unknown and unsupported'')"

definition supported :: "KeyType \<Rightarrow> bool" where
  "supported t = (t \<in> set [KeyType_RSA_2048, KeyType_RSA_4096, KeyType_EC_P256, KeyType_EC_P384])"

subsection \<open>The key entry store\<close>

text \<open>
  \<open>setEntry\<close> reads \<open>CreationDate.Unix()\<close> of the old entry and then of the new one, and
  only when the identifier already has an entry (\<open>&&\<close> evaluates left to right).
\<close>

definition setEntry :: "string \<Rightarrow> keyEntry \<Rightarrow> Plugin \<Rightarrow> bool result \<times> Plugin" where
  "setEntry spireKeyID newEntry p =
     (case entries p spireKeyID of
        None \<Rightarrow> (Ok True, p\<lparr>entries := (entries p)(spireKeyID \<mapsto> newEntry)\<rparr>)
      | Some oldEntry \<Rightarrow>
          (case CreationDate oldEntry of
             None \<Rightarrow> (Panic nil_dereference, p)
           | Some oldDate \<Rightarrow>
               (case CreationDate newEntry of
                  None \<Rightarrow> (Panic nil_dereference, p)
                | Some newDate \<Rightarrow>
                    if Unix oldDate > Unix newDate then (Ok False, p)
                    else (Ok True, p\<lparr>entries := (entries p)(spireKeyID \<mapsto> newEntry)\<rparr>))))"

definition entry :: "string \<Rightarrow> Plugin \<Rightarrow> keyEntry option" where
  "entry spireKeyID p = entries p spireKeyID"

subsection \<open>String functions of the Go library\<close>

definition HasPrefix :: "string \<Rightarrow> string \<Rightarrow> bool" where
  "HasPrefix s prefix = (length s \<ge> length prefix \<and> take (length prefix) s = prefix)"

text \<open>\<open>strings.Index\<close>: the position of the first occurrence, \<open>None\<close> for Go's \<open>-1\<close>.\<close>

fun Index :: "string \<Rightarrow> string \<Rightarrow> nat option" where
  "Index [] substr = (if substr = [] then Some 0 else None)"
| "Index (c # cs) substr =
     (if HasPrefix (c # cs) substr then Some 0 else map_option Suc (Index cs substr))"

text \<open>
  \<open>strings.SplitAfter\<close>: cut after each occurrence of the separator, found from left to
  right in what is left of the string. With an empty separator Go cuts after every UTF-8
  sequence; that branch is written for one-byte characters and is never taken by the
  plugin, whose separator is \<open>keyPrefix\<close>.
\<close>

function SplitAfter :: "string \<Rightarrow> string \<Rightarrow> string list" where
  "SplitAfter s sep =
     (if sep = [] then map (\<lambda>c. [c]) s
      else (case Index s sep of
              None \<Rightarrow> [s]
            | Some m \<Rightarrow> take (m + length sep) s # SplitAfter (drop (m + length sep) s) sep))"
  by pat_completeness auto
termination
proof (relation "measure (\<lambda>(s, sep). length s)")
  show "wf (measure (\<lambda>(s, sep). length s))"
    by simp
next
  fix s sep :: string and m :: nat
  assume sep: "sep \<noteq> []" and found: "Index s sep = Some m"
  from sep found have "s \<noteq> []"
    by (cases s) auto
  with sep show "((drop (m + length sep) s, sep), (s, sep)) \<in> measure (\<lambda>(s, sep). length s)"
    by (cases s) auto
qed

declare SplitAfter.simps [simp del]

subsection \<open>Reconciliation\<close>

text \<open>
  \<open>processKMSKey\<close>. The dereferences are, in the order of the source: \<open>KeyMetadata\<close> and
  its \<open>CustomerMasterKeySpec\<close>; \<open>Enabled\<close>; \<open>Description\<close>, only when enabled;
  \<open>descSplit[1]\<close>; \<open>*awsKeyID\<close> when the entry is built. The result of \<open>setEntry\<close> is
  dropped.
\<close>

definition processKMSKey :: "string option \<Rightarrow> Plugin \<Rightarrow> unit result \<times> Plugin" where
  "processKMSKey awsKeyID p =
     (case kmsClient p of
        None \<Rightarrow> (Panic nil_dereference, p)
      | Some client \<Rightarrow>
     let p1 = send (kms_DescribeKey awsKeyID) p in
     (case DescribeKeyWithContext client awsKeyID of
        Inl err \<Rightarrow> (Err err, p1)
      | Inr None \<Rightarrow> (Panic nil_dereference, p1)
      | Inr (Some md) \<Rightarrow>
     (case md_CustomerMasterKeySpec md of
        None \<Rightarrow> (Panic nil_dereference, p1)
      | Some keySpec \<Rightarrow>
     (case keyTypeFromKeySpec keySpec of
        Inl err \<Rightarrow> (Err err, p1)
      | Inr keyType \<Rightarrow>
     (case md_Enabled md of
        None \<Rightarrow> (Panic nil_dereference, p1)
      | Some False \<Rightarrow> (Ok (), p1)
      | Some True \<Rightarrow>
     (case md_Description md of
        None \<Rightarrow> (Panic nil_dereference, p1)
      | Some description \<Rightarrow>
     if \<not> HasPrefix description keyPrefix then (Ok (), p1)
     else
       let descSplit = SplitAfter description keyPrefix in
       if length descSplit \<le> 1 then (Panic index_out_of_range, p1)
       else
         let spireKeyID = descSplit ! 1;
             p2 = send (kms_GetPublicKey awsKeyID) p1 in
         (case GetPublicKeyWithContext client awsKeyID of
            Inl err \<Rightarrow> (Err err, p2)
          | Inr getPublicKeyResp \<Rightarrow>
         (case awsKeyID of
            None \<Rightarrow> (Panic nil_dereference, p2)
          | Some keyID \<Rightarrow>
              let e = \<lparr>AwsKeyID = keyID,
                       CreationDate = md_CreationDate md,
                       PublicKey = \<lparr>pk_Id = spireKeyID, pk_Type = keyType,
                                    pk_PkixData = gp_PublicKey getPublicKeyResp\<rparr>\<rparr> in
              (case setEntry spireKeyID e p2 of
                 (Panic x, p3) \<Rightarrow> (Panic x, p3)
               | (_, p3) \<Rightarrow> (Ok (), p3))))))))))"

text \<open>
  The loop of \<open>Configure\<close> over \<open>listKeysResp.Keys\<close>. An error of \<open>processKMSKey\<close> is
  logged, with \<open>*key.KeyId\<close>, and the loop goes on.
\<close>

fun Configure_loop :: "KeyListEntry option list \<Rightarrow> Plugin \<Rightarrow> unit result \<times> Plugin" where
  "Configure_loop [] p = (Ok (), p)"
| "Configure_loop (key # keys) p =
     (case key of
        None \<Rightarrow> (Panic nil_dereference, p)
      | Some k \<Rightarrow>
          (case processKMSKey (le_KeyId k) p of
             (Panic x, p1) \<Rightarrow> (Panic x, p1)
           | (Ok _, p1) \<Rightarrow> Configure_loop keys p1
           | (Err err, p1) \<Rightarrow>
               (case le_KeyId k of
                  None \<Rightarrow> (Panic nil_dereference, p1)
                | Some keyID \<Rightarrow>
                    Configure_loop keys
                      (p1\<lparr>logged := logged p1 @
                            [log_Error ''Failed to process kms key.'' keyID err]\<rparr>))))"

definition configure :: "env \<Rightarrow> string \<Rightarrow> error + Config" where
  "configure ev c =
     (case hcl_Decode ev c of
        Inl err \<Rightarrow> Inl (kmsErr (''unable to decode configuration: '' @ error_message err))
      | Inr cfg \<Rightarrow> Inr cfg)"

definition newKMSClient :: "env \<Rightarrow> Config \<Rightarrow> error + kmsClient" where
  "newKMSClient ev c =
     (let creds = (AccessKeyID c, SecretAccessKey c, []);
          awsConf = \<lparr>aws_Credentials = creds, aws_Region = Region c\<rparr> in
      case NewSession ev awsConf of
        Inl err \<Rightarrow> Inl err
      | Inr client \<Rightarrow> Inr client)"

definition Configure :: "env \<Rightarrow> string \<Rightarrow> Plugin \<Rightarrow> unit result \<times> Plugin" where
  "Configure ev configuration p =
     (case configure ev configuration of
        Inl err \<Rightarrow> (Err err, p)
      | Inr cfg \<Rightarrow>
     let p1 = p\<lparr>config := Some cfg\<rparr> in
     (case newKMSClient ev cfg of
        Inl err \<Rightarrow> (Err err, p1)
      | Inr client \<Rightarrow>
     let p2 = p1\<lparr>kmsClient := Some client\<rparr>;
         p3 = send kms_ListKeys p2 in
     (case ListKeysWithContext client of
        Inl err \<Rightarrow> (Err err, p3)
      | Inr keys \<Rightarrow>
          (case Configure_loop keys p3 of
             (Panic x, p4) \<Rightarrow> (Panic x, p4)
           | (_, p4) \<Rightarrow> (Ok (), p4)))))"

subsection \<open>Generate, sign, look up\<close>

text \<open>The requests are given by their fields: \<open>KeyId\<close> and \<open>KeyType\<close>, or \<open>KeyId\<close> and \<open>Data\<close>.\<close>

definition GenerateKey :: "string \<Rightarrow> KeyType \<Rightarrow> Plugin \<Rightarrow> PublicKey result \<times> Plugin" where
  "GenerateKey spireKeyID keyType p =
     (let description = keyPrefix @ spireKeyID in
      case keySpecFromKeyType keyType of
        Inl err \<Rightarrow> (Err err, p)
      | Inr keySpec \<Rightarrow>
     let createKeyInput = \<lparr>ck_Description = description,
                            ck_KeyUsage = KeyUsageTypeSignVerify,
                            ck_CustomerMasterKeySpec = keySpec\<rparr> in
     (case kmsClient p of
        None \<Rightarrow> (Panic nil_dereference, p)
      | Some client \<Rightarrow>
     let p1 = send (kms_CreateKey createKeyInput) p in
     (case CreateKeyWithContext client createKeyInput of
        Inl err \<Rightarrow> (Err err, p1)
      | Inr None \<Rightarrow> (Panic nil_dereference, p1)
      | Inr (Some md) \<Rightarrow>
     let p2 = send (kms_GetPublicKey (md_KeyId md)) p1 in
     (case GetPublicKeyWithContext client (md_KeyId md) of
        Inl err \<Rightarrow> (Err err, p2)
      | Inr pub \<Rightarrow>
     (case gp_KeyId pub of
        None \<Rightarrow> (Panic nil_dereference, p2)
      | Some keyID \<Rightarrow>
     let newEntry = \<lparr>AwsKeyID = keyID,
                      CreationDate = md_CreationDate md,
                      PublicKey = \<lparr>pk_Id = spireKeyID, pk_Type = keyType,
                                   pk_PkixData = gp_PublicKey pub\<rparr>\<rparr>;
         oldEntry = entry spireKeyID p2 in
     (case setEntry spireKeyID newEntry p2 of
        (Panic x, p3) \<Rightarrow> (Panic x, p3)
      | (Err err, p3) \<Rightarrow> (Err err, p3)
      | (Ok ok, p3) \<Rightarrow>
          (case oldEntry of
             Some old \<Rightarrow>
               if ok then
                 let p4 = send (kms_ScheduleKeyDeletion (Some (AwsKeyID old))) p3 in
                 (case ScheduleKeyDeletionWithContext client (Some (AwsKeyID old)) of
                    Inl err \<Rightarrow> (Err err, p4)
                  | Inr _ \<Rightarrow> (Ok (PublicKey newEntry), p4))
               else (Ok (PublicKey newEntry), p3)
           | None \<Rightarrow> (Ok (PublicKey newEntry), p3))))))))"

definition SignData :: "string \<Rightarrow> bytes \<Rightarrow> Plugin \<Rightarrow> bytes result \<times> Plugin" where
  "SignData keyId data p =
     (case entry keyId p of
        None \<Rightarrow> (Err (kmsErr (''unable to find KeyId: '' @ keyId)), p)
      | Some keyEntry \<Rightarrow>
     (case kmsClient p of
        None \<Rightarrow> (Panic nil_dereference, p)
      | Some client \<Rightarrow>
     let signInput = \<lparr>sg_KeyId = AwsKeyID keyEntry,
                       sg_Message = data,
                       sg_MessageType = MessageTypeDigest,
                       sg_SigningAlgorithm = SigningAlgorithmSpecEcdsaSha256\<rparr>;
         p1 = send (kms_Sign signInput) p in
     (case SignWithContext client signInput of
        Inl err \<Rightarrow> (Err err, p1)
      | Inr signature \<Rightarrow> (Ok signature, p1))))"

text \<open>The response of \<open>GetPublicKey\<close> holds the pointer \<open>PublicKey\<close>, nil when there is no entry.\<close>

definition GetPublicKey :: "string \<Rightarrow> Plugin \<Rightarrow> PublicKey option result \<times> Plugin" where
  "GetPublicKey keyId p =
     (if keyId = [] then (Err (kmsErr ''KeyId is required''), p)
      else (case entry keyId p of
              None \<Rightarrow> (Ok None, p)
            | Some e \<Rightarrow> (Ok (Some (PublicKey e)), p)))"

section \<open>Vocabulary of the properties\<close>

subsection \<open>Reading the request log\<close>

text \<open>The handles of the deletion requests, and of the describe requests, in a log.\<close>

fun deletions :: "request list \<Rightarrow> string option list" where
  "deletions [] = []"
| "deletions (kms_ScheduleKeyDeletion h # rs) = h # deletions rs"
| "deletions (_ # rs) = deletions rs"

fun described :: "request list \<Rightarrow> string option list" where
  "described [] = []"
| "described (kms_DescribeKey h # rs) = h # described rs"
| "described (_ # rs) = described rs"

subsection \<open>Backend keys\<close>

text \<open>
  A backend key as the backend describes it: specification, enabled flag, description,
  creation date, and the public key it gives out.
\<close>

record backend_key =
  bk_spec :: string
  bk_enabled :: bool
  bk_description :: string
  bk_creationDate :: Time
  bk_publicKey :: bytes

text \<open>
  The client \<open>serves\<close> a backend key under a handle when it describes the handle with the
  key's fields, all present, and hands out the key's public key.
\<close>

definition serves :: "kmsClient \<Rightarrow> string \<Rightarrow> backend_key \<Rightarrow> bool" where
  "serves c h k =
     ((case DescribeKeyWithContext c (Some h) of
         Inr (Some md) \<Rightarrow>
           md_CustomerMasterKeySpec md = Some (bk_spec k) \<and>
           md_Enabled md = Some (bk_enabled k) \<and>
           md_Description md = Some (bk_description k) \<and>
           md_CreationDate md = Some (bk_creationDate k)
       | _ \<Rightarrow> False) \<and>
      (case GetPublicKeyWithContext c (Some h) of
         Inr out \<Rightarrow> gp_PublicKey out = bk_publicKey k
       | Inl _ \<Rightarrow> False))"

text \<open>What \<open>ListKeys\<close> returns for a list of handles: no nil pointer in it.\<close>

definition listed :: "string list \<Rightarrow> KeyListEntry option list" where
  "listed hs = map (\<lambda>h. Some \<lparr>le_KeyId = Some h\<rparr>) hs"

text \<open>Enabled and carrying the ownership tag; with a key specification that is supported.\<close>

definition owned :: "backend_key \<Rightarrow> bool" where
  "owned k = (bk_enabled k \<and> HasPrefix (bk_description k) keyPrefix)"

definition supported_spec :: "backend_key \<Rightarrow> bool" where
  "supported_spec k = (case keyTypeFromKeySpec (bk_spec k) of Inr _ \<Rightarrow> True | Inl _ \<Rightarrow> False)"

text \<open>
  The Put that reconciling a backend key amounts to. The identifier is the second piece of
  the description split after the tag, as \<open>processKMSKey\<close> takes it.
\<close>

definition reconciled_entry :: "string \<Rightarrow> backend_key \<Rightarrow> keyEntry" where
  "reconciled_entry h k =
     \<lparr>AwsKeyID = h,
      CreationDate = Some (bk_creationDate k),
      PublicKey = \<lparr>pk_Id = SplitAfter (bk_description k) keyPrefix ! 1,
                   pk_Type = (case keyTypeFromKeySpec (bk_spec k) of
                                Inr keyType \<Rightarrow> keyType
                              | Inl _ \<Rightarrow> KeyType_UNSPECIFIED_KEY_TYPE),
                   pk_PkixData = bk_publicKey k\<rparr>\<rparr>"

definition put_key :: "string \<times> backend_key \<Rightarrow> Plugin \<Rightarrow> Plugin" where
  "put_key hk p =
     snd (setEntry (pk_Id (PublicKey (reconciled_entry (fst hk) (snd hk))))
            (reconciled_entry (fst hk) (snd hk)) p)"

text \<open>
  No nil pointer in what the client answers for the listed handles: a describe request fails
  or returns metadata with its fields set.
\<close>

definition complete :: "kmsClient \<Rightarrow> string list \<Rightarrow> bool" where
  "complete c hs =
     list_all (\<lambda>h. case DescribeKeyWithContext c (Some h) of
                     Inl _ \<Rightarrow> True
                   | Inr None \<Rightarrow> False
                   | Inr (Some md) \<Rightarrow>
                       md_CustomerMasterKeySpec md \<noteq> None \<and> md_Enabled md \<noteq> None \<and>
                       md_Description md \<noteq> None \<and> md_CreationDate md \<noteq> None) hs"

text \<open>Every entry of the store has its creation date.\<close>

definition dated :: "Plugin \<Rightarrow> bool" where
  "dated p = (\<forall>i e. entries p i = Some e \<longrightarrow> CreationDate e \<noteq> None)"

section \<open>Example data\<close>

text \<open>
  Three entries for the identifier \<open>k\<close>: the second is as old as the first to the
  nanosecond, the third one nanosecond older.
\<close>

definition tie_old :: keyEntry where
  "tie_old = \<lparr>AwsKeyID = ''aws-1'', CreationDate = Some \<lparr>sec = 100, nsec = 500\<rparr>,
     PublicKey = \<lparr>pk_Id = ''k'', pk_Type = KeyType_EC_P256, pk_PkixData = [1]\<rparr>\<rparr>"

definition tie_new :: keyEntry where
  "tie_new = \<lparr>AwsKeyID = ''aws-2'', CreationDate = Some \<lparr>sec = 100, nsec = 500\<rparr>,
     PublicKey = \<lparr>pk_Id = ''k'', pk_Type = KeyType_EC_P256, pk_PkixData = [2]\<rparr>\<rparr>"

definition earlier_new :: keyEntry where
  "earlier_new = \<lparr>AwsKeyID = ''aws-3'', CreationDate = Some \<lparr>sec = 100, nsec = 499\<rparr>,
     PublicKey = \<lparr>pk_Id = ''k'', pk_Type = KeyType_EC_P256, pk_PkixData = [3]\<rparr>\<rparr>"

definition tie_store :: Plugin where
  "tie_store = New\<lparr>entries := [''k'' \<mapsto> tie_old]\<rparr>"

text \<open>
  A stand-in for the SDK client over a table of backend keys: it lists and describes the keys
  of the table, creates a key under the handle \<open>fresh\<close> with creation date \<open>now\<close>, accepts
  every deletion and signs by returning the digest.
\<close>

definition fake_client :: "(string \<times> backend_key) list \<Rightarrow> string \<Rightarrow> Time \<Rightarrow> kmsClient" where
  "fake_client ks fresh now =
     \<lparr>CreateKeyWithContext = (\<lambda>input.
        Inr (Some \<lparr>md_KeyId = Some fresh,
                   md_CustomerMasterKeySpec = Some (ck_CustomerMasterKeySpec input),
                   md_Enabled = Some True,
                   md_Description = Some (ck_Description input),
                   md_CreationDate = Some now\<rparr>)),
      DescribeKeyWithContext = (\<lambda>keyId.
        case keyId of
          None \<Rightarrow> Inl (external ''ValidationException'')
        | Some h \<Rightarrow>
            (case map_of ks h of
               None \<Rightarrow> Inl (external ''NotFoundException'')
             | Some k \<Rightarrow>
                 Inr (Some \<lparr>md_KeyId = Some h,
                            md_CustomerMasterKeySpec = Some (bk_spec k),
                            md_Enabled = Some (bk_enabled k),
                            md_Description = Some (bk_description k),
                            md_CreationDate = Some (bk_creationDate k)\<rparr>))),
      GetPublicKeyWithContext = (\<lambda>keyId.
        case keyId of
          None \<Rightarrow> Inl (external ''ValidationException'')
        | Some h \<Rightarrow>
            (case map_of ks h of
               None \<Rightarrow> if h = fresh then Inr \<lparr>gp_KeyId = Some h, gp_PublicKey = [9]\<rparr>
                       else Inl (external ''NotFoundException'')
             | Some k \<Rightarrow> Inr \<lparr>gp_KeyId = Some h, gp_PublicKey = bk_publicKey k\<rparr>)),
      ListKeysWithContext = Inr (listed (map fst ks)),
      ScheduleKeyDeletionWithContext = (\<lambda>keyId. Inr ()),
      SignWithContext = (\<lambda>input. Inr (sg_Message input))\<rparr>"

text \<open>A key whose logical identifier \<open>aSPIRE_SERVER_KEY:b\<close> contains the tag.\<close>

definition nested_keys :: "(string \<times> backend_key) list" where
  "nested_keys =
     [(''aws-7'', \<lparr>bk_spec = ''ECC_NIST_P256'', bk_enabled = True,
                   bk_description = ''SPIRE_SERVER_KEY:aSPIRE_SERVER_KEY:b'',
                   bk_creationDate = \<lparr>sec = 100, nsec = 0\<rparr>, bk_publicKey = [7]\<rparr>)]"

definition nested_plugin :: Plugin where
  "nested_plugin =
     New\<lparr>kmsClient := Some (fake_client nested_keys ''aws-9'' \<lparr>sec = 200, nsec = 0\<rparr>)\<rparr>"

text \<open>A plugin whose store holds an RSA-2048 entry.\<close>

definition rsa_entry :: keyEntry where
  "rsa_entry = \<lparr>AwsKeyID = ''aws-5'', CreationDate = Some \<lparr>sec = 100, nsec = 0\<rparr>,
     PublicKey = \<lparr>pk_Id = ''svid-5'', pk_Type = KeyType_RSA_2048, pk_PkixData = [5]\<rparr>\<rparr>"

definition rsa_plugin :: Plugin where
  "rsa_plugin =
     New\<lparr>entries := [''svid-5'' \<mapsto> rsa_entry],
         kmsClient := Some (fake_client [] ''aws-9'' \<lparr>sec = 200, nsec = 0\<rparr>)\<rparr>"

text \<open>
  An environment whose decoder finds no field in the configuration text and whose backend
  holds no key.
\<close>

definition blank_Config :: Config where
  "blank_Config = \<lparr>AccessKeyID = [], SecretAccessKey = [], Region = []\<rparr>"

definition blank_env :: env where
  "blank_env =
     \<lparr>hcl_Decode = (\<lambda>c. Inr blank_Config),
      NewSession = (\<lambda>awsConf. Inr (fake_client [] ''aws-9'' \<lparr>sec = 200, nsec = 0\<rparr>))\<rparr>"

text \<open>
  A plugin holding an entry for \<open>svid-1\<close> created at second 100, over a backend that creates
  the key \<open>aws-9\<close>: at second 200 for \<open>rotate_plugin\<close>, at second 50 for \<open>stale_plugin\<close>.
\<close>

definition first_entry :: keyEntry where
  "first_entry = \<lparr>AwsKeyID = ''aws-1'', CreationDate = Some \<lparr>sec = 100, nsec = 0\<rparr>,
     PublicKey = \<lparr>pk_Id = ''svid-1'', pk_Type = KeyType_EC_P256, pk_PkixData = [1]\<rparr>\<rparr>"

definition rotate_plugin :: Plugin where
  "rotate_plugin =
     New\<lparr>entries := [''svid-1'' \<mapsto> first_entry],
         kmsClient := Some (fake_client [] ''aws-9'' \<lparr>sec = 200, nsec = 0\<rparr>)\<rparr>"

definition stale_plugin :: Plugin where
  "stale_plugin =
     New\<lparr>entries := [''svid-1'' \<mapsto> first_entry],
         kmsClient := Some (fake_client [] ''aws-9'' \<lparr>sec = 50, nsec = 0\<rparr>)\<rparr>"

text \<open>Five backend keys: two are enabled, tagged and of a supported specification.\<close>

definition demo_keys :: "(string \<times> backend_key) list" where
  "demo_keys =
     [(''aws-1'', \<lparr>bk_spec = ''ECC_NIST_P256'', bk_enabled = True,
                   bk_description = ''SPIRE_SERVER_KEY:svid-1'',
                   bk_creationDate = \<lparr>sec = 100, nsec = 0\<rparr>, bk_publicKey = [1]\<rparr>),
      (''aws-2'', \<lparr>bk_spec = ''RSA_2048'', bk_enabled = False,
                   bk_description = ''SPIRE_SERVER_KEY:svid-2'',
                   bk_creationDate = \<lparr>sec = 110, nsec = 0\<rparr>, bk_publicKey = [2]\<rparr>),
      (''aws-3'', \<lparr>bk_spec = ''RSA_4096'', bk_enabled = True,
                   bk_description = ''billing'',
                   bk_creationDate = \<lparr>sec = 120, nsec = 0\<rparr>, bk_publicKey = [3]\<rparr>),
      (''aws-4'', \<lparr>bk_spec = ''SYMMETRIC_DEFAULT'', bk_enabled = True,
                   bk_description = ''SPIRE_SERVER_KEY:svid-4'',
                   bk_creationDate = \<lparr>sec = 130, nsec = 0\<rparr>, bk_publicKey = []\<rparr>),
      (''aws-5'', \<lparr>bk_spec = ''RSA_2048'', bk_enabled = True,
                   bk_description = ''SPIRE_SERVER_KEY:svid-5'',
                   bk_creationDate = \<lparr>sec = 140, nsec = 0\<rparr>, bk_publicKey = [5]\<rparr>)]"

definition demo_client :: kmsClient where
  "demo_client = fake_client demo_keys ''aws-9'' \<lparr>sec = 200, nsec = 0\<rparr>"

definition demo_plugin :: Plugin where
  "demo_plugin = New\<lparr>kmsClient := Some demo_client\<rparr>"

text \<open>
  A client over the same keys that lists four handles: \<open>aws-0\<close>, which it cannot describe,
  \<open>aws-4\<close>, of an unsupported specification, \<open>aws-1\<close>, whose public key it fails to fetch,
  and \<open>aws-5\<close>. A client that fails to list.
\<close>

definition faulty_client :: kmsClient where
  "faulty_client =
     demo_client
       \<lparr>GetPublicKeyWithContext := (\<lambda>keyId.
          if keyId = Some ''aws-1'' then Inl (external ''ThrottlingException'')
          else GetPublicKeyWithContext demo_client keyId),
        ListKeysWithContext := Inr (listed [''aws-0'', ''aws-4'', ''aws-1'', ''aws-5''])\<rparr>"

definition demo_Config :: Config where
  "demo_Config = \<lparr>AccessKeyID = ''id'', SecretAccessKey = ''secret'', Region = ''us-east-1''\<rparr>"

definition faulty_env :: env where
  "faulty_env = \<lparr>hcl_Decode = (\<lambda>c. Inr demo_Config), NewSession = (\<lambda>awsConf. Inr faulty_client)\<rparr>"

definition unlisted_env :: env where
  "unlisted_env =
     \<lparr>hcl_Decode = (\<lambda>c. Inr demo_Config),
      NewSession = (\<lambda>awsConf.
        Inr (demo_client\<lparr>ListKeysWithContext := Inl (external ''AccessDeniedException'')\<rparr>))\<rparr>"

section \<open>Auxiliary facts\<close>

subsection \<open>Fields that a step leaves alone\<close>

lemma send_fields:
  "entries (send r p) = entries p"
  "kmsClient (send r p) = kmsClient p"
  "logged (send r p) = logged p"
  "requests (send r p) = requests p @ [r]"
  by (simp_all add: send_def)

lemma setEntry_send:
  "setEntry i e (send r p) = (fst (setEntry i e p), send r (snd (setEntry i e p)))"
  by (simp add: setEntry_def send_def split: option.split)

lemma setEntry_fields:
  "kmsClient (snd (setEntry i e p)) = kmsClient p"
  "requests (snd (setEntry i e p)) = requests p"
  "logged (snd (setEntry i e p)) = logged p"
  by (simp_all add: setEntry_def split: option.split)

lemma setEntry_requests: "setEntry i e p = (r, p') \<Longrightarrow> requests p' = requests p"
  using setEntry_fields(2) [of i e p] by simp

lemma setEntry_rejected: "fst (setEntry i e p) = Ok False \<Longrightarrow> snd (setEntry i e p) = p"
  by (auto simp: setEntry_def split: option.splits if_splits)

lemma setEntry_accepted:
  "fst (setEntry i e p) = Ok True \<Longrightarrow> entries (snd (setEntry i e p)) = (entries p)(i \<mapsto> e)"
  by (auto simp: setEntry_def split: option.splits if_splits)

lemma setEntry_entries_cong:
  "entries p = entries q \<Longrightarrow> entries (snd (setEntry i e p)) = entries (snd (setEntry i e q))"
  by (simp add: setEntry_def split: option.split)

lemma put_key_entries_cong:
  "entries p = entries q \<Longrightarrow> entries (put_key hk p) = entries (put_key hk q)"
  unfolding put_key_def by (rule setEntry_entries_cong)

text \<open>With every creation date set, \<open>setEntry\<close> does not panic, and keeps the dates set.\<close>

lemma setEntry_dated:
  assumes "dated p" and "CreationDate e \<noteq> None"
  shows "fst (setEntry i e p) = Ok True \<or> fst (setEntry i e p) = Ok False"
    and "dated (snd (setEntry i e p))"
proof -
  have old: "entries p i = Some old \<Longrightarrow> \<exists>d. CreationDate old = Some d" for old
    using assms(1) by (fastforce simp: dated_def)
  from assms(2) obtain nd where nd: "CreationDate e = Some nd"
    by auto
  show "fst (setEntry i e p) = Ok True \<or> fst (setEntry i e p) = Ok False"
  proof (cases "entries p i")
    case None
    then show ?thesis by (simp add: setEntry_def)
  next
    case (Some old)
    with old nd show ?thesis by (auto simp: setEntry_def)
  qed
  show "dated (snd (setEntry i e p))"
  proof (cases "entries p i")
    case None
    with assms show ?thesis by (simp add: setEntry_def dated_def)
  next
    case (Some old)
    with old obtain d where "CreationDate old = Some d" by blast
    with Some nd assms show ?thesis by (simp add: setEntry_def dated_def)
  qed
qed

lemma deletions_append: "deletions (xs @ ys) = deletions xs @ deletions ys"
  by (induction xs rule: deletions.induct) simp_all

lemma described_append: "described (xs @ ys) = described xs @ described ys"
  by (induction xs rule: described.induct) simp_all

subsection \<open>Splitting a description after the tag\<close>

lemma HasPrefix_Index: "sep \<noteq> [] \<Longrightarrow> HasPrefix s sep \<Longrightarrow> Index s sep = Some 0"
  by (cases s) (auto simp: HasPrefix_def)

lemma SplitAfter_nonempty: "sep \<noteq> [] \<Longrightarrow> SplitAfter s sep \<noteq> []"
  by (subst SplitAfter.simps) (simp split: option.split)

lemma SplitAfter_prefixed:
  assumes "sep \<noteq> []" and "HasPrefix s sep"
  shows "SplitAfter s sep = sep # SplitAfter (drop (length sep) s) sep"
proof -
  from assms have "Index s sep = Some 0"
    by (rule HasPrefix_Index)
  moreover from assms have "take (length sep) s = sep"
    by (simp add: HasPrefix_def)
  ultimately show ?thesis
    using assms(1) by (subst SplitAfter.simps) simp
qed

text \<open>After the \<open>HasPrefix\<close> test, \<open>descSplit[1]\<close> is in range.\<close>

lemma SplitAfter_length:
  assumes "sep \<noteq> []" and "HasPrefix s sep"
  shows "1 < length (SplitAfter s sep)"
proof -
  from assms(1) have "SplitAfter (drop (length sep) s) sep \<noteq> []"
    by (rule SplitAfter_nonempty)
  then have "0 < length (SplitAfter (drop (length sep) s) sep)"
    by simp
  with SplitAfter_prefixed [OF assms] show ?thesis
    by simp
qed

text \<open>
  The second piece is what follows the separator, but only up to and including the next
  occurrence of the separator, when there is one.
\<close>

lemma SplitAfter_second:
  assumes "sep \<noteq> []"
  shows "SplitAfter (sep @ rest) sep ! 1 =
           (case Index rest sep of None \<Rightarrow> rest | Some m \<Rightarrow> take (m + length sep) rest)"
proof -
  have "HasPrefix (sep @ rest) sep"
    by (simp add: HasPrefix_def)
  with assms have "SplitAfter (sep @ rest) sep = sep # SplitAfter rest sep"
    using SplitAfter_prefixed [of sep "sep @ rest"] by simp
  then have "SplitAfter (sep @ rest) sep ! 1 = hd (SplitAfter rest sep)"
    using SplitAfter_nonempty [OF assms, of rest] by (simp add: hd_conv_nth)
  also have "\<dots> = (case Index rest sep of None \<Rightarrow> rest | Some m \<Rightarrow> take (m + length sep) rest)"
    using assms by (subst SplitAfter.simps) (simp split: option.split)
  finally show ?thesis .
qed

lemma parsed_identifier:
  "Index spireKeyID keyPrefix = None \<Longrightarrow>
     SplitAfter (keyPrefix @ spireKeyID) keyPrefix ! 1 = spireKeyID"
  using SplitAfter_second [of keyPrefix spireKeyID] by simp

lemma nested_split:
  "SplitAfter ''SPIRE_SERVER_KEY:aSPIRE_SERVER_KEY:b'' keyPrefix =
     [keyPrefix, ''aSPIRE_SERVER_KEY:'', ''b'']"
  by (simp add: SplitAfter.simps HasPrefix_def)

subsection \<open>One step of the reconciliation loop\<close>

text \<open>A key that the client serves.\<close>

lemma processKMSKey_served:
  assumes client: "kmsClient p = Some c"
    and serves: "serves c h k"
    and dated: "dated p"
  shows "fst (processKMSKey (Some h) p) \<noteq> Panic x"
    and "kmsClient (snd (processKMSKey (Some h) p)) = Some c"
    and "dated (snd (processKMSKey (Some h) p))"
    and "entries (snd (processKMSKey (Some h) p)) =
           (if owned k \<and> supported_spec k then entries (put_key (h, k) p) else entries p)"
proof -
  obtain md out where
    d: "DescribeKeyWithContext c (Some h) = Inr (Some md)"
    and f: "md_CustomerMasterKeySpec md = Some (bk_spec k)" "md_Enabled md = Some (bk_enabled k)"
      "md_Description md = Some (bk_description k)" "md_CreationDate md = Some (bk_creationDate k)"
    and g: "GetPublicKeyWithContext c (Some h) = Inr out" "gp_PublicKey out = bk_publicKey k"
    using serves by (auto simp: serves_def split: sum.splits option.splits)
  let ?p2 = "send (kms_GetPublicKey (Some h)) (send (kms_DescribeKey (Some h)) p)"
  let ?e = "reconciled_entry h k"
  let ?i = "pk_Id (PublicKey ?e)"
  have len: "HasPrefix (bk_description k) keyPrefix \<Longrightarrow>
      \<not> length (SplitAfter (bk_description k) keyPrefix) \<le> 1"
    using SplitAfter_length [of keyPrefix "bk_description k"] by simp
  have date: "CreationDate ?e \<noteq> None"
    by (simp add: reconciled_entry_def)
  from dated have dated2: "dated ?p2"
    by (simp add: dated_def send_fields)
  note put = setEntry_dated [OF dated2 date, of ?i]
  have unfold: "processKMSKey (Some h) p =
      (case keyTypeFromKeySpec (bk_spec k) of
         Inl err \<Rightarrow> (Err err, send (kms_DescribeKey (Some h)) p)
       | Inr keyType \<Rightarrow>
           if owned k then (Ok (), snd (setEntry ?i ?e ?p2))
           else (Ok (), send (kms_DescribeKey (Some h)) p))"
    using client d f g len put(1)
    by (auto simp: processKMSKey_def Let_def owned_def reconciled_entry_def
        split: sum.split bool.split result.split prod.split)
  show "fst (processKMSKey (Some h) p) \<noteq> Panic x"
    by (simp add: unfold split: sum.split)
  show "kmsClient (snd (processKMSKey (Some h) p)) = Some c"
    using client by (simp add: unfold setEntry_fields send_fields split: sum.split)
  show "dated (snd (processKMSKey (Some h) p))"
    using put(2) dated by (simp add: unfold dated_def send_fields split: sum.split)
  have "entries (snd (setEntry ?i ?e ?p2)) = entries (put_key (h, k) p)"
    by (simp add: put_key_def, rule setEntry_entries_cong, simp add: send_fields)
  then show "entries (snd (processKMSKey (Some h) p)) =
           (if owned k \<and> supported_spec k then entries (put_key (h, k) p) else entries p)"
    by (simp add: unfold supported_spec_def send_fields split: sum.split)
qed

text \<open>A key for which the client may fail, short of answering with a nil pointer.\<close>

lemma processKMSKey_complete:
  assumes client: "kmsClient p = Some c"
    and complete: "complete c [h]"
    and dated: "dated p"
  shows "fst (processKMSKey (Some h) p) \<noteq> Panic x"
    and "kmsClient (snd (processKMSKey (Some h) p)) = Some c"
    and "dated (snd (processKMSKey (Some h) p))"
    and "described (requests (snd (processKMSKey (Some h) p))) = described (requests p) @ [Some h]"
proof -
  let ?p1 = "send (kms_DescribeKey (Some h)) p"
  let ?p2 = "send (kms_GetPublicKey (Some h)) ?p1"
  from dated have dated2: "dated ?p2"
    by (simp add: dated_def send_fields)
  have conv: "(\<not> length xs \<le> Suc 0) = (Suc 0 < length xs)" for xs :: "string list"
    by auto
  have shape: "(\<exists>r. r \<noteq> Panic x \<and>
        (processKMSKey (Some h) p = (r, ?p1) \<or> processKMSKey (Some h) p = (r, ?p2))) \<or>
      (\<exists>i e. CreationDate e \<noteq> None \<and>
        processKMSKey (Some h) p = (Ok (), snd (setEntry i e ?p2)))"
  proof (cases "DescribeKeyWithContext c (Some h)")
    case (Inl err)
    have "processKMSKey (Some h) p = (Err err, ?p1)"
      using client Inl by (simp add: processKMSKey_def)
    then show ?thesis
      by (intro disjI1 exI [of _ "Err err"]) simp
  next
    case (Inr answer)
    with complete obtain md keySpec enabled description date where
      md: "answer = Some md" "md_CustomerMasterKeySpec md = Some keySpec"
        "md_Enabled md = Some enabled" "md_Description md = Some description"
        "md_CreationDate md = Some date"
      by (auto simp: complete_def split: option.splits)
    show ?thesis
    proof (cases "keyTypeFromKeySpec keySpec")
      case (Inl err)
      have "processKMSKey (Some h) p = (Err err, ?p1)"
        using client Inr md Inl by (simp add: processKMSKey_def)
      then show ?thesis
        by (intro disjI1 exI [of _ "Err err"]) simp
    next
      case keyType: (Inr keyType)
      show ?thesis
      proof (cases "enabled \<and> HasPrefix description keyPrefix")
        case False
        have "processKMSKey (Some h) p = (Ok (), ?p1)"
          using client Inr md keyType False
          by (auto simp: processKMSKey_def Let_def split: bool.split)
        then show ?thesis
          by (intro disjI1 exI [of _ "Ok ()"]) simp
      next
        case True
        then have len: "Suc 0 < length (SplitAfter description keyPrefix)"
          using SplitAfter_length [of keyPrefix description] by simp
        show ?thesis
        proof (cases "GetPublicKeyWithContext c (Some h)")
          case (Inl err)
          have "processKMSKey (Some h) p = (Err err, ?p2)"
            using client Inr md keyType True len Inl
            by (simp add: processKMSKey_def Let_def conv split: bool.split)
          then show ?thesis
            by (intro disjI1 exI [of _ "Err err"]) simp
        next
          case fetched: (Inr out)
          let ?i = "SplitAfter description keyPrefix ! 1"
          let ?e = "\<lparr>AwsKeyID = h, CreationDate = Some date,
                      PublicKey = \<lparr>pk_Id = ?i, pk_Type = keyType,
                                   pk_PkixData = gp_PublicKey out\<rparr>\<rparr>"
          have put: "fst (setEntry ?i ?e ?p2) = Ok True \<or> fst (setEntry ?i ?e ?p2) = Ok False"
            by (rule setEntry_dated(1) [OF dated2]) simp
          then have "processKMSKey (Some h) p = (Ok (), snd (setEntry ?i ?e ?p2))"
            using client Inr md keyType True len fetched
            by (auto simp: processKMSKey_def Let_def conv
                split: prod.split result.split bool.split)
          then show ?thesis
            by (intro disjI2 exI [of _ ?i] exI [of _ ?e]) simp
        qed
      qed
    qed
  qed
  then consider
      (sent) r where "r \<noteq> Panic x"
        "processKMSKey (Some h) p = (r, ?p1) \<or> processKMSKey (Some h) p = (r, ?p2)"
    | (put) i e where "CreationDate e \<noteq> None"
        "processKMSKey (Some h) p = (Ok (), snd (setEntry i e ?p2))"
    by blast
  then show "fst (processKMSKey (Some h) p) \<noteq> Panic x"
    by cases auto
  from dated have dated1: "dated ?p1"
    by (simp add: dated_def send_fields)
  from shape show "kmsClient (snd (processKMSKey (Some h) p)) = Some c"
    using client by (auto simp: setEntry_fields send_fields)
  from shape show "dated (snd (processKMSKey (Some h) p))"
    using dated1 dated2 setEntry_dated(2) [OF dated2] by auto
  from shape show
    "described (requests (snd (processKMSKey (Some h) p))) = described (requests p) @ [Some h]"
    by (auto simp: setEntry_fields send_fields described_append)
qed

text \<open>Unless \<open>processKMSKey\<close> panics, the loop goes on with the rest of the keys.\<close>

lemma Configure_loop_step:
  assumes "fst (processKMSKey (Some h) p) \<noteq> Panic nil_dereference"
    "fst (processKMSKey (Some h) p) \<noteq> Panic index_out_of_range"
  obtains p1 where "Configure_loop (Some \<lparr>le_KeyId = Some h\<rparr> # keys) p = Configure_loop keys p1"
    and "entries p1 = entries (snd (processKMSKey (Some h) p))"
    and "kmsClient p1 = kmsClient (snd (processKMSKey (Some h) p))"
    and "requests p1 = requests (snd (processKMSKey (Some h) p))"
proof (cases "processKMSKey (Some h) p")
  case (Pair r p')
  show ?thesis
  proof (cases r)
    case (Ok u)
    with Pair that [of p'] show ?thesis by simp
  next
    case (Err err)
    with Pair that [of "p'\<lparr>logged := logged p' @
        [log_Error ''Failed to process kms key.'' h err]\<rparr>"]
    show ?thesis by simp
  next
    case (Panic x)
    with Pair assms show ?thesis by (cases x) simp_all
  qed
qed

lemma Configure_loop_served:
  assumes "kmsClient p = Some c"
    and "list_all (\<lambda>(h, k). serves c h k) ks"
    and "dated p"
    and "entries p = entries q"
  shows "fst (Configure_loop (listed (map fst ks)) p) = Ok () \<and>
         entries (snd (Configure_loop (listed (map fst ks)) p)) =
           entries (fold put_key (filter (\<lambda>(h, k). owned k \<and> supported_spec k) ks) q)"
  using assms
proof (induction ks arbitrary: p q)
  case Nil
  then show ?case by (simp add: listed_def)
next
  case (Cons hk ks)
  obtain h k where hk: "hk = (h, k)"
    by (cases hk)
  from Cons.prems(2) hk have serves: "serves c h k" and rest: "list_all (\<lambda>(h, k). serves c h k) ks"
    by simp_all
  note step = processKMSKey_served [OF Cons.prems(1) serves Cons.prems(3)]
  obtain p1 where p1: "Configure_loop (Some \<lparr>le_KeyId = Some h\<rparr> # listed (map fst ks)) p =
        Configure_loop (listed (map fst ks)) p1"
    and e1: "entries p1 = entries (snd (processKMSKey (Some h) p))"
    and c1: "kmsClient p1 = kmsClient (snd (processKMSKey (Some h) p))"
    using Configure_loop_step [OF step(1) step(1)] by blast
  let ?q1 = "if owned k \<and> supported_spec k then put_key (h, k) q else q"
  have "dated p1"
    using step(3) e1 by (simp add: dated_def)
  moreover have "kmsClient p1 = Some c"
    using step(2) c1 by simp
  moreover have "entries p1 = entries ?q1"
    using step(4) e1 Cons.prems(4) put_key_entries_cong [of p q "(h, k)"] by simp
  ultimately have "fst (Configure_loop (listed (map fst ks)) p1) = Ok () \<and>
         entries (snd (Configure_loop (listed (map fst ks)) p1)) =
           entries (fold put_key (filter (\<lambda>(h, k). owned k \<and> supported_spec k) ks) ?q1)"
    using Cons.IH [of p1 ?q1] rest by blast
  then show ?case
    using p1 by (simp add: hk listed_def)
qed

lemma Configure_loop_complete:
  assumes "kmsClient p = Some c" and "complete c hs" and "dated p"
  shows "fst (Configure_loop (listed hs) p) = Ok () \<and>
         described (requests (snd (Configure_loop (listed hs) p))) =
           described (requests p) @ map Some hs"
  using assms
proof (induction hs arbitrary: p)
  case Nil
  then show ?case by (simp add: listed_def)
next
  case (Cons h hs)
  from Cons.prems(2) have one: "complete c [h]" and rest: "complete c hs"
    by (simp_all add: complete_def)
  note step = processKMSKey_complete [OF Cons.prems(1) one Cons.prems(3)]
  obtain p1 where p1: "Configure_loop (Some \<lparr>le_KeyId = Some h\<rparr> # listed hs) p =
        Configure_loop (listed hs) p1"
    and e1: "entries p1 = entries (snd (processKMSKey (Some h) p))"
    and c1: "kmsClient p1 = kmsClient (snd (processKMSKey (Some h) p))"
    and r1: "requests p1 = requests (snd (processKMSKey (Some h) p))"
    using Configure_loop_step [OF step(1) step(1)] by blast
  have "dated p1"
    using step(3) e1 by (simp add: dated_def)
  moreover have "kmsClient p1 = Some c"
    using step(2) c1 by simp
  ultimately have "fst (Configure_loop (listed hs) p1) = Ok () \<and>
         described (requests (snd (Configure_loop (listed hs) p1))) =
           described (requests p1) @ map Some hs"
    using Cons.IH [of p1] rest by blast
  then show ?case
    using p1 r1 step(4) by (simp add: listed_def)
qed

subsection \<open>Deletions requested by \<open>GenerateKey\<close>\<close>

text \<open>
  Whatever the backend answers, a call of \<open>GenerateKey\<close> requests no deletion, or exactly
  one, and that one is for the handle of the entry the identifier had before the call.
\<close>

lemma GenerateKey_deletes_only_old:
  "deletions (requests (snd (GenerateKey spireKeyID keyType p))) = deletions (requests p) \<or>
   (\<exists>old. entries p spireKeyID = Some old \<and>
      deletions (requests (snd (GenerateKey spireKeyID keyType p))) =
        deletions (requests p) @ [Some (AwsKeyID old)])"
  unfolding GenerateKey_def Let_def
  by (auto simp: send_fields entry_def deletions_append
      dest!: setEntry_requests
      split: option.split sum.split result.split prod.split)

section \<open>Properties\<close>

subsection \<open>Type mapping\<close>

text \<open>
  C4. Round trip: for each of the four supported key types RSA-2048, RSA-4096, EC-P256 and
  EC-P384, \<open>keySpecFromKeyType\<close> succeeds and \<open>keyTypeFromKeySpec\<close> maps the key
  specification it gives back to the same key type.
\<close>

theorem round_trip:
  "supported t \<Longrightarrow> \<exists>spec. keySpecFromKeyType t = Inr spec \<and> keyTypeFromKeySpec spec = Inr t"
  by (cases t) (simp_all add: supported_def keyTypeFromKeySpec_def)

theorem round_trip_witness:
  "supported KeyType_EC_P384 \<and>
   (\<exists>spec. keySpecFromKeyType KeyType_EC_P384 = Inr spec \<and>
           keyTypeFromKeySpec spec = Inr KeyType_EC_P384)"
  using round_trip [of KeyType_EC_P384] by (simp add: supported_def)

subsection \<open>The key entry store\<close>

text \<open>
  C1, as the claim states it, fails: an entry whose creation time equals that of the current
  entry is adopted, with result \<open>true\<close>, and so is an entry that is older by less than a
  second, since \<open>setEntry\<close> compares \<open>Unix()\<close> seconds and rejects only when the current
  entry's second is strictly greater.
\<close>

theorem setEntry_ties_counterexample:
  "entries tie_store ''k'' = Some tie_old \<and>
   CreationDate tie_new = CreationDate tie_old \<and>
   fst (setEntry ''k'' tie_new tie_store) = Ok True \<and>
   entries (snd (setEntry ''k'' tie_new tie_store)) ''k'' = Some tie_new \<and>
   tie_new \<noteq> tie_old \<and>
   Before (the (CreationDate earlier_new)) (the (CreationDate tie_old)) \<and>
   fst (setEntry ''k'' earlier_new tie_store) = Ok True \<and>
   entries (snd (setEntry ''k'' earlier_new tie_store)) ''k'' = Some earlier_new"
  by (simp add: setEntry_def tie_store_def tie_old_def tie_new_def earlier_new_def New_def
      Unix_def Before_def)

text \<open>
  C1, amended. If the identifier has no entry, \<open>setEntry\<close> adopts the new entry and returns
  \<open>true\<close>. If it has one (both creation dates being set), the new entry is adopted, with
  result \<open>true\<close>, exactly when the current entry's creation time in whole seconds is at most
  the new entry's; otherwise the store is left as it is and the result is \<open>false\<close>. A new
  entry with a strictly later or an equal creation time is therefore always adopted.
\<close>

theorem setEntry_policy:
  "(entries p i = None \<longrightarrow>
      setEntry i new p = (Ok True, p\<lparr>entries := (entries p)(i \<mapsto> new)\<rparr>)) \<and>
   (entries p i = Some old \<and> CreationDate old = Some od \<and> CreationDate new = Some nd \<longrightarrow>
      setEntry i new p =
        (if Unix od \<le> Unix nd then (Ok True, p\<lparr>entries := (entries p)(i \<mapsto> new)\<rparr>)
         else (Ok False, p))) \<and>
   (Before od nd \<or> od = nd \<longrightarrow> Unix od \<le> Unix nd)"
  by (auto simp: setEntry_def Before_def Unix_def)

theorem setEntry_policy_witness:
  "entries New ''k'' = None \<and>
   setEntry ''k'' tie_old New = (Ok True, New\<lparr>entries := (entries New)(''k'' \<mapsto> tie_old)\<rparr>) \<and>
   entries tie_store ''k'' = Some tie_old \<and>
   setEntry ''k'' tie_new tie_store =
     (Ok True, tie_store\<lparr>entries := (entries tie_store)(''k'' \<mapsto> tie_new)\<rparr>)"
  using setEntry_policy [of New "''k''" tie_old]
    setEntry_policy [of tie_store "''k''" tie_new tie_old
      "\<lparr>sec = 100, nsec = 500\<rparr>" "\<lparr>sec = 100, nsec = 500\<rparr>"]
  by (simp add: New_def tie_store_def tie_old_def tie_new_def)

subsection \<open>Looking a key up\<close>

text \<open>
  C10. \<open>GetPublicKey\<close> with an empty identifier returns the error "KeyId is required",
  whatever the store holds, and leaves the plugin as it was; with a non-empty identifier that
  has no entry it returns a response without a public key and no error.
\<close>

theorem GetPublicKey_lookup:
  "GetPublicKey [] p = (Err (kmsErr ''KeyId is required''), p) \<and>
   (keyId \<noteq> [] \<and> entries p keyId = None \<longrightarrow> GetPublicKey keyId p = (Ok None, p))"
  by (simp add: GetPublicKey_def entry_def)

theorem GetPublicKey_lookup_witness:
  "''svid-1'' \<noteq> [] \<and> entries New ''svid-1'' = None \<and>
   GetPublicKey ''svid-1'' New = (Ok None, New)"
  using GetPublicKey_lookup [of New "''svid-1''"] by (simp add: New_def)

subsection \<open>Generating a key\<close>

text \<open>
  C8. When the requested key type has no key specification, \<open>GenerateKey\<close> returns the
  error of \<open>keySpecFromKeyType\<close> and the plugin is unchanged: no request has gone to the
  backend and the store is as before. The key types without a specification are RSA-1024,
  with the message "unsupported", and the unspecified type, with the different message
  "unknown and unsupported".
\<close>

theorem GenerateKey_unsupported:
  "(keySpecFromKeyType keyType = Inl err \<longrightarrow>
      GenerateKey spireKeyID keyType p = (Err err, p)) \<and>
   ((\<exists>err. keySpecFromKeyType keyType = Inl err) \<longleftrightarrow>
      keyType = KeyType_RSA_1024 \<or> keyType = KeyType_UNSPECIFIED_KEY_TYPE) \<and>
   keySpecFromKeyType KeyType_RSA_1024 = Inl (kmsErr ''unsupported'') \<and>
   keySpecFromKeyType KeyType_UNSPECIFIED_KEY_TYPE = Inl (kmsErr ''unknown and unsupported'') \<and>
   error_message (kmsErr ''unsupported'') \<noteq> error_message (kmsErr ''unknown and unsupported'')"
proof -
  have 1: "keySpecFromKeyType keyType = Inl err \<longrightarrow>
      GenerateKey spireKeyID keyType p = (Err err, p)"
    by (simp add: GenerateKey_def)
  have 2: "(\<exists>err. keySpecFromKeyType keyType = Inl err) \<longleftrightarrow>
      keyType = KeyType_RSA_1024 \<or> keyType = KeyType_UNSPECIFIED_KEY_TYPE"
    by (cases keyType) simp_all
  from 1 2 show ?thesis by simp
qed

theorem GenerateKey_unsupported_witness:
  "keySpecFromKeyType KeyType_RSA_1024 = Inl (kmsErr ''unsupported'') \<and>
   GenerateKey ''svid-1'' KeyType_RSA_1024 tie_store = (Err (kmsErr ''unsupported''), tie_store)"
  using GenerateKey_unsupported [of KeyType_RSA_1024 "kmsErr ''unsupported''" "''svid-1''" tie_store]
  by simp

text \<open>
  C3. Take a call of \<open>GenerateKey\<close> that gets as far as the Put: the key type is supported,
  the backend creates the key and hands out its public key under the handle \<open>newID\<close>, and
  \<open>setEntry\<close> answers \<open>accepted\<close>. Then the requests of the call are the creation, the
  fetch of the public key and, exactly when the identifier had an entry before and the Put
  was accepted, one deletion, for the handle of that old entry. After an accepted Put the
  store holds the new entry; after a rejected one the store is as before: the old key is
  kept and not deleted, and the new backend key is in no entry. When the backend gave the new
  key a handle other than the old entry's, no deletion is requested for the new handle.
\<close>

theorem GenerateKey_deletion:
  assumes spec: "keySpecFromKeyType keyType = Inr keySpec"
    and client: "kmsClient p = Some client"
    and input: "createKeyInput = \<lparr>ck_Description = keyPrefix @ spireKeyID,
                   ck_KeyUsage = KeyUsageTypeSignVerify, ck_CustomerMasterKeySpec = keySpec\<rparr>"
    and created: "CreateKeyWithContext client createKeyInput = Inr (Some md)"
    and fetched: "GetPublicKeyWithContext client (md_KeyId md) = Inr pub"
    and handle: "gp_KeyId pub = Some newID"
    and new: "newEntry = \<lparr>AwsKeyID = newID, CreationDate = md_CreationDate md,
                PublicKey = \<lparr>pk_Id = spireKeyID, pk_Type = keyType,
                             pk_PkixData = gp_PublicKey pub\<rparr>\<rparr>"
    and put: "fst (setEntry spireKeyID newEntry p) = Ok accepted"
  shows "requests (snd (GenerateKey spireKeyID keyType p)) =
           requests p @ [kms_CreateKey createKeyInput, kms_GetPublicKey (md_KeyId md)] @
           (case entries p spireKeyID of
              Some old \<Rightarrow> if accepted then [kms_ScheduleKeyDeletion (Some (AwsKeyID old))] else []
            | None \<Rightarrow> []) \<and>
         (accepted \<longrightarrow> entries (snd (GenerateKey spireKeyID keyType p)) spireKeyID = Some newEntry) \<and>
         (\<not> accepted \<longrightarrow> entries (snd (GenerateKey spireKeyID keyType p)) = entries p) \<and>
         ((\<forall>old. entries p spireKeyID = Some old \<longrightarrow> AwsKeyID old \<noteq> newID) \<longrightarrow>
            kms_ScheduleKeyDeletion (Some newID) \<notin>
              set (drop (length (requests p)) (requests (snd (GenerateKey spireKeyID keyType p)))))"
proof -
  let ?p2 = "send (kms_GetPublicKey (md_KeyId md)) (send (kms_CreateKey createKeyInput) p)"
  obtain p3 where put2: "setEntry spireKeyID newEntry ?p2 = (Ok accepted, p3)"
    using put by (simp add: setEntry_send)
  have old2: "entry spireKeyID ?p2 = entries p spireKeyID"
    by (simp add: entry_def send_fields)
  have p3: "p3 = send (kms_GetPublicKey (md_KeyId md)) (send (kms_CreateKey createKeyInput)
                   (snd (setEntry spireKeyID newEntry p)))"
    using put2 by (simp add: setEntry_send)
  have req3: "requests p3 =
      requests p @ [kms_CreateKey createKeyInput, kms_GetPublicKey (md_KeyId md)]"
    by (simp add: p3 setEntry_fields send_fields)
  have gen: "snd (GenerateKey spireKeyID keyType p) =
      (case entries p spireKeyID of
         Some old \<Rightarrow>
           if accepted then send (kms_ScheduleKeyDeletion (Some (AwsKeyID old))) p3 else p3
       | None \<Rightarrow> p3)"
    using spec client created fetched handle put2 old2
    unfolding GenerateKey_def Let_def input new
    by (simp split: option.split sum.split)
  have acc: "accepted \<Longrightarrow> entries p3 spireKeyID = Some newEntry"
    using put setEntry_accepted [of spireKeyID newEntry p] by (simp add: p3 send_fields)
  have rej: "\<not> accepted \<Longrightarrow> entries p3 = entries p"
    using put setEntry_rejected [of spireKeyID newEntry p] by (simp add: p3 send_fields)
  show ?thesis
    using acc rej req3 by (auto simp: gen send_fields split: option.split)
qed

theorem GenerateKey_deletion_witness:
  "requests (snd (GenerateKey ''svid-1'' KeyType_EC_P256 rotate_plugin)) =
     [kms_CreateKey \<lparr>ck_Description = ''SPIRE_SERVER_KEY:svid-1'', ck_KeyUsage = ''SIGN_VERIFY'',
                     ck_CustomerMasterKeySpec = ''ECC_NIST_P256''\<rparr>,
      kms_GetPublicKey (Some ''aws-9''),
      kms_ScheduleKeyDeletion (Some ''aws-1'')] \<and>
   map_option AwsKeyID
     (entries (snd (GenerateKey ''svid-1'' KeyType_EC_P256 rotate_plugin)) ''svid-1'') =
     Some ''aws-9'' \<and>
   requests (snd (GenerateKey ''svid-1'' KeyType_EC_P256 stale_plugin)) =
     [kms_CreateKey \<lparr>ck_Description = ''SPIRE_SERVER_KEY:svid-1'', ck_KeyUsage = ''SIGN_VERIFY'',
                     ck_CustomerMasterKeySpec = ''ECC_NIST_P256''\<rparr>,
      kms_GetPublicKey (Some ''aws-9'')] \<and>
   entries (snd (GenerateKey ''svid-1'' KeyType_EC_P256 stale_plugin)) = entries stale_plugin"
proof -
  let ?input = "\<lparr>ck_Description = keyPrefix @ ''svid-1'', ck_KeyUsage = KeyUsageTypeSignVerify,
                  ck_CustomerMasterKeySpec = ''ECC_NIST_P256''\<rparr>"
  let ?pub = "\<lparr>gp_KeyId = Some ''aws-9'', gp_PublicKey = [9]\<rparr>"
  let ?md = "\<lambda>now. \<lparr>md_KeyId = Some ''aws-9'', md_CustomerMasterKeySpec = Some ''ECC_NIST_P256'',
                  md_Enabled = Some True, md_Description = Some (keyPrefix @ ''svid-1''),
                  md_CreationDate = Some now\<rparr>"
  let ?new = "\<lambda>now. \<lparr>AwsKeyID = ''aws-9'', CreationDate = md_CreationDate (?md now),
                  PublicKey = \<lparr>pk_Id = ''svid-1'', pk_Type = KeyType_EC_P256,
                               pk_PkixData = gp_PublicKey ?pub\<rparr>\<rparr>"
  let ?late = "\<lparr>sec = 200, nsec = 0\<rparr>" and ?early = "\<lparr>sec = 50, nsec = 0\<rparr>"
  have spec: "keySpecFromKeyType KeyType_EC_P256 = Inr ''ECC_NIST_P256''"
    by simp
  have client: "kmsClient rotate_plugin = Some (fake_client [] ''aws-9'' ?late)"
    "kmsClient stale_plugin = Some (fake_client [] ''aws-9'' ?early)"
    by (simp_all add: rotate_plugin_def stale_plugin_def New_def)
  have created: "CreateKeyWithContext (fake_client [] ''aws-9'' now) ?input = Inr (Some (?md now))"
    for now
    by (simp add: fake_client_def)
  have fetched: "GetPublicKeyWithContext (fake_client [] ''aws-9'' now) (md_KeyId (?md now)) =
      Inr ?pub" for now
    by (simp add: fake_client_def)
  have handle: "gp_KeyId ?pub = Some ''aws-9''"
    by simp
  have put: "fst (setEntry ''svid-1'' (?new ?late) rotate_plugin) = Ok True"
    "fst (setEntry ''svid-1'' (?new ?early) stale_plugin) = Ok False"
    by (simp_all add: setEntry_def rotate_plugin_def stale_plugin_def first_entry_def New_def
        Unix_def)
  have old: "entries rotate_plugin ''svid-1'' = Some first_entry"
    "entries stale_plugin ''svid-1'' = Some first_entry"
    "requests rotate_plugin = []" "requests stale_plugin = []"
    by (simp_all add: rotate_plugin_def stale_plugin_def New_def)
  show ?thesis
    using GenerateKey_deletion [OF spec client(1) refl created fetched handle refl put(1)]
      GenerateKey_deletion [OF spec client(2) refl created fetched handle refl put(2)]
    by (simp add: old first_entry_def)
qed

subsection \<open>Signing\<close>

text \<open>
  C2 asks for a signing algorithm chosen from the key type of the entry. \<open>SignData\<close> sends
  the constant \<open>ECDSA_SHA_256\<close>: here for an entry of type RSA-2048. The comment on that
  line of the source says the algorithm should match the key type.
\<close>

theorem SignData_rsa_algorithm:
  "entries rsa_plugin ''svid-5'' = Some rsa_entry \<and>
   pk_Type (PublicKey rsa_entry) = KeyType_RSA_2048 \<and>
   SignData ''svid-5'' [1, 2, 3] rsa_plugin =
     (Ok [1, 2, 3],
      rsa_plugin\<lparr>requests := [kms_Sign \<lparr>sg_KeyId = ''aws-5'', sg_Message = [1, 2, 3],
                                sg_MessageType = ''DIGEST'',
                                sg_SigningAlgorithm = ''ECDSA_SHA_256''\<rparr>]\<rparr>)"
  by (simp add: SignData_def rsa_plugin_def rsa_entry_def entry_def fake_client_def New_def
      send_def)

subsection \<open>Reconciliation\<close>

text \<open>
  C7 asks for the identifier to be everything that follows the tag. \<open>GenerateKey\<close> for the
  identifier \<open>aSPIRE_SERVER_KEY:b\<close> labels the backend key with the tag followed by that
  identifier; \<open>processKMSKey\<close>, given a key with this label, stores it under
  \<open>aSPIRE_SERVER_KEY:\<close>, the piece that ends with the second occurrence of the tag, and
  nothing under the identifier itself.
\<close>

theorem processKMSKey_nested_tag:
  "hd (requests (snd (GenerateKey ''aSPIRE_SERVER_KEY:b'' KeyType_EC_P256 nested_plugin))) =
     kms_CreateKey \<lparr>ck_Description = ''SPIRE_SERVER_KEY:aSPIRE_SERVER_KEY:b'',
                    ck_KeyUsage = ''SIGN_VERIFY'',
                    ck_CustomerMasterKeySpec = ''ECC_NIST_P256''\<rparr> \<and>
   map_option bk_description (map_of nested_keys ''aws-7'') =
     Some ''SPIRE_SERVER_KEY:aSPIRE_SERVER_KEY:b'' \<and>
   fst (processKMSKey (Some ''aws-7'') nested_plugin) = Ok () \<and>
   entries (snd (processKMSKey (Some ''aws-7'') nested_plugin)) ''aSPIRE_SERVER_KEY:b'' = None \<and>
   map_option AwsKeyID
     (entries (snd (processKMSKey (Some ''aws-7'') nested_plugin)) ''aSPIRE_SERVER_KEY:'') =
     Some ''aws-7''"
proof -
  have "hd (requests (snd (GenerateKey ''aSPIRE_SERVER_KEY:b'' KeyType_EC_P256 nested_plugin))) =
     kms_CreateKey \<lparr>ck_Description = ''SPIRE_SERVER_KEY:aSPIRE_SERVER_KEY:b'',
                    ck_KeyUsage = ''SIGN_VERIFY'',
                    ck_CustomerMasterKeySpec = ''ECC_NIST_P256''\<rparr>"
    by (simp add: GenerateKey_def nested_plugin_def nested_keys_def fake_client_def New_def
        send_def setEntry_def entry_def)
  moreover have "map_option bk_description (map_of nested_keys ''aws-7'') =
     Some ''SPIRE_SERVER_KEY:aSPIRE_SERVER_KEY:b''"
    by (simp add: nested_keys_def)
  moreover have "fst (processKMSKey (Some ''aws-7'') nested_plugin) = Ok () \<and>
   entries (snd (processKMSKey (Some ''aws-7'') nested_plugin)) ''aSPIRE_SERVER_KEY:b'' = None \<and>
   map_option AwsKeyID
     (entries (snd (processKMSKey (Some ''aws-7'') nested_plugin)) ''aSPIRE_SERVER_KEY:'') =
     Some ''aws-7''"
    by (simp add: processKMSKey_def nested_plugin_def nested_keys_def fake_client_def New_def
        send_def keyTypeFromKeySpec_def HasPrefix_def nested_split setEntry_def Let_def)
  ultimately show ?thesis
    by simp
qed

text \<open>
  C5. Let the backend hold the keys \<open>ks\<close>, each under its handle, let the client serve them
  (it describes each with all fields and hands out its public key), and let every entry
  already in the store have its creation date. Then the loop of \<open>Configure\<close> over the listed
  handles ends without error, and the store it leaves is the one obtained by a Put, in the
  order of the list, for exactly the keys that are enabled, carry the tag and have a
  supported specification. In particular, when every key is disabled or untagged the store
  is left as it was.
\<close>

theorem reconciliation_filter:
  assumes "kmsClient p = Some c"
    and "list_all (\<lambda>(h, k). serves c h k) ks"
    and "\<forall>i e. entries p i = Some e \<longrightarrow> CreationDate e \<noteq> None"
  shows "fst (Configure_loop (listed (map fst ks)) p) = Ok () \<and>
         entries (snd (Configure_loop (listed (map fst ks)) p)) =
           entries (fold put_key (filter (\<lambda>(h, k). owned k \<and> supported_spec k) ks) p) \<and>
         (list_all (\<lambda>(h, k). \<not> bk_enabled k \<or> \<not> HasPrefix (bk_description k) keyPrefix) ks \<longrightarrow>
            entries (snd (Configure_loop (listed (map fst ks)) p)) = entries p)"
proof -
  from assms(3) have "dated p"
    by (simp add: dated_def)
  with assms(1,2) have main: "fst (Configure_loop (listed (map fst ks)) p) = Ok () \<and>
         entries (snd (Configure_loop (listed (map fst ks)) p)) =
           entries (fold put_key (filter (\<lambda>(h, k). owned k \<and> supported_spec k) ks) p)"
    by (rule Configure_loop_served) simp
  have "filter (\<lambda>(h, k). owned k \<and> supported_spec k) ks = []"
    if "list_all (\<lambda>(h, k). \<not> bk_enabled k \<or> \<not> HasPrefix (bk_description k) keyPrefix) ks"
    using that by (induction ks) (auto simp: owned_def)
  with main show ?thesis
    by auto
qed

theorem reconciliation_filter_witness:
  "kmsClient demo_plugin = Some demo_client \<and>
   list_all (\<lambda>(h, k). serves demo_client h k) demo_keys \<and>
   map fst (filter (\<lambda>(h, k). owned k \<and> supported_spec k) demo_keys) = [''aws-1'', ''aws-5''] \<and>
   fst (Configure_loop (listed (map fst demo_keys)) demo_plugin) = Ok () \<and>
   map (\<lambda>i. map_option AwsKeyID
               (entries (snd (Configure_loop (listed (map fst demo_keys)) demo_plugin)) i))
     [''svid-1'', ''svid-2'', ''billing'', ''svid-4'', ''svid-5''] =
     [Some ''aws-1'', None, None, None, Some ''aws-5'']"
proof -
  have client: "kmsClient demo_plugin = Some demo_client"
    by (simp add: demo_plugin_def)
  have served: "list_all (\<lambda>(h, k). serves demo_client h k) demo_keys"
    by (simp add: serves_def demo_client_def fake_client_def demo_keys_def)
  have empty: "\<forall>i e. entries demo_plugin i = Some e \<longrightarrow> CreationDate e \<noteq> None"
    by (simp add: demo_plugin_def New_def)
  have selected: "filter (\<lambda>(h, k). owned k \<and> supported_spec k) demo_keys =
      [demo_keys ! 0, demo_keys ! 4]"
    by (simp add: demo_keys_def owned_def supported_spec_def HasPrefix_def keyTypeFromKeySpec_def)
  have puts: "map (\<lambda>i. map_option AwsKeyID
        (entries (fold put_key [demo_keys ! 0, demo_keys ! 4] demo_plugin) i))
      [''svid-1'', ''svid-2'', ''billing'', ''svid-4'', ''svid-5''] =
      [Some ''aws-1'', None, None, None, Some ''aws-5'']"
    by (simp add: demo_keys_def put_key_def reconciled_entry_def SplitAfter.simps HasPrefix_def
        setEntry_def demo_plugin_def New_def keyTypeFromKeySpec_def)
  show ?thesis
    using reconciliation_filter [OF client served empty] client served puts
    by (simp add: selected) (simp add: demo_keys_def)
qed

subsection \<open>Configuration\<close>

text \<open>
  C6. Let the configuration decode and the session be made, with client \<open>c\<close>. If listing the
  keys fails, \<open>Configure\<close> returns that error. If the listing succeeds then, whatever happens
  for the single keys (a describe request that fails, a specification that is not supported,
  a public key that cannot be fetched), \<open>Configure\<close> returns without error and has sent a
  describe request for every listed handle, in the order of the list: no key is skipped
  because an earlier one failed. The answers are taken to hold no nil pointer, and the
  entries already in the store to have their creation dates.
\<close>

theorem Configure_error_isolation:
  assumes "hcl_Decode ev configuration = Inr cfg"
    and "NewSession ev \<lparr>aws_Credentials = (AccessKeyID cfg, SecretAccessKey cfg, []),
                        aws_Region = Region cfg\<rparr> = Inr c"
  shows "(ListKeysWithContext c = Inl err \<longrightarrow> fst (Configure ev configuration p) = Err err) \<and>
         (ListKeysWithContext c = Inr (listed hs) \<and> complete c hs \<and> dated p \<longrightarrow>
            fst (Configure ev configuration p) = Ok () \<and>
            described (requests (snd (Configure ev configuration p))) =
              described (requests p) @ map Some hs)"
proof -
  let ?p3 = "send kms_ListKeys (p\<lparr>config := Some cfg, kmsClient := Some c\<rparr>)"
  have start: "configure ev configuration = Inr cfg" "newKMSClient ev cfg = Inr c"
    using assms by (simp_all add: configure_def newKMSClient_def)
  have failed: "fst (Configure ev configuration p) = Err err" if "ListKeysWithContext c = Inl err"
    using that start by (simp add: Configure_def)
  have isolated: "fst (Configure ev configuration p) = Ok () \<and>
      described (requests (snd (Configure ev configuration p))) =
        described (requests p) @ map Some hs"
    if keys: "ListKeysWithContext c = Inr (listed hs)" and "complete c hs" and "dated p"
  proof -
    have "kmsClient ?p3 = Some c" "dated ?p3"
      using that(3) by (simp_all add: send_fields dated_def)
    from Configure_loop_complete [OF this(1) that(2) this(2)]
    have loop: "fst (Configure_loop (listed hs) ?p3) = Ok ()"
      "described (requests (snd (Configure_loop (listed hs) ?p3))) =
         described (requests p) @ map Some hs"
      by (simp_all add: send_fields described_append)
    have "Configure ev configuration p = (Ok (), snd (Configure_loop (listed hs) ?p3))"
      using start keys loop(1)
      by (cases "Configure_loop (listed hs) ?p3") (simp add: Configure_def)
    with loop(2) show ?thesis
      by simp
  qed
  from failed isolated show ?thesis
    by blast
qed

text \<open>
  The listing of \<open>faulty_client\<close> has a handle of each failing kind before \<open>aws-5\<close>: the three
  failures are logged, and the key \<open>aws-5\<close> is in the store at the end.
\<close>

theorem Configure_error_isolation_witness:
  "fst (Configure unlisted_env [] New) = Err (external ''AccessDeniedException'') \<and>
   complete faulty_client [''aws-0'', ''aws-4'', ''aws-1'', ''aws-5''] \<and>
   dated New \<and>
   fst (Configure faulty_env [] New) = Ok () \<and>
   described (requests (snd (Configure faulty_env [] New))) =
     [Some ''aws-0'', Some ''aws-4'', Some ''aws-1'', Some ''aws-5''] \<and>
   logged (snd (Configure faulty_env [] New)) =
     [log_Error ''Failed to process kms key.'' ''aws-0'' (external ''NotFoundException''),
      log_Error ''Failed to process kms key.'' ''aws-4'' (kmsErr ''unsupported''),
      log_Error ''Failed to process kms key.'' ''aws-1'' (external ''ThrottlingException'')] \<and>
   map_option AwsKeyID (entries (snd (Configure faulty_env [] New)) ''svid-5'') = Some ''aws-5''"
proof -
  let ?hs = "[''aws-0'', ''aws-4'', ''aws-1'', ''aws-5'']"
  let ?denied = "demo_client\<lparr>ListKeysWithContext := Inl (external ''AccessDeniedException'')\<rparr>"
  let ?awsConf = "\<lparr>aws_Credentials = (AccessKeyID demo_Config, SecretAccessKey demo_Config, []),
                    aws_Region = Region demo_Config\<rparr>"
  have decode: "hcl_Decode unlisted_env [] = Inr demo_Config"
    "hcl_Decode faulty_env [] = Inr demo_Config"
    by (simp_all add: unlisted_env_def faulty_env_def)
  have session: "NewSession unlisted_env ?awsConf = Inr ?denied"
    "NewSession faulty_env ?awsConf = Inr faulty_client"
    by (simp_all add: unlisted_env_def faulty_env_def)
  have denied: "ListKeysWithContext ?denied = Inl (external ''AccessDeniedException'')"
    by simp
  have keys: "ListKeysWithContext faulty_client = Inr (listed ?hs)"
    by (simp add: faulty_client_def)
  have complete: "complete faulty_client ?hs"
    by (simp add: complete_def faulty_client_def demo_client_def fake_client_def demo_keys_def)
  have dated: "dated New"
    by (simp add: dated_def New_def)
  have requests: "requests New = []"
    by (simp add: New_def)
  have run: "logged (snd (Configure faulty_env [] New)) =
     [log_Error ''Failed to process kms key.'' ''aws-0'' (external ''NotFoundException''),
      log_Error ''Failed to process kms key.'' ''aws-4'' (kmsErr ''unsupported''),
      log_Error ''Failed to process kms key.'' ''aws-1'' (external ''ThrottlingException'')] \<and>
   map_option AwsKeyID (entries (snd (Configure faulty_env [] New)) ''svid-5'') = Some ''aws-5''"
    by (simp add: Configure_def configure_def newKMSClient_def faulty_env_def faulty_client_def
        demo_client_def fake_client_def demo_keys_def demo_Config_def listed_def
        processKMSKey_def send_def keyTypeFromKeySpec_def HasPrefix_def SplitAfter.simps
        setEntry_def New_def Let_def)
  show ?thesis
    using Configure_error_isolation [OF decode(1) session(1),
        of "external ''AccessDeniedException''" New]
      Configure_error_isolation [OF decode(2) session(2), of _ New ?hs]
      denied keys complete dated requests run
    by simp
qed

text \<open>
  C9 asks for a configuration without its required fields to be refused before the client is
  made. \<open>configure\<close> only decodes, its validation being a comment marked TODO: a
  configuration text in which the decoder finds no access key, no secret and no region is
  returned as it is, and \<open>Configure\<close> goes on to make the client, lists the keys and
  succeeds.
\<close>

theorem Configure_blank_configuration:
  "configure blank_env [] = Inr blank_Config \<and>
   AccessKeyID blank_Config = [] \<and> SecretAccessKey blank_Config = [] \<and>
   Region blank_Config = [] \<and>
   fst (Configure blank_env [] New) = Ok () \<and>
   config (snd (Configure blank_env [] New)) = Some blank_Config \<and>
   requests (snd (Configure blank_env [] New)) = [kms_ListKeys]"
  by (simp add: Configure_def configure_def newKMSClient_def blank_env_def blank_Config_def
      fake_client_def New_def send_def listed_def)

end
